theory Spec2Isabelle
  imports Complex_Main "HOL-Library.Word" "HOL-Library.AList"
begin

section \<open>Go strings\<close>

text \<open>
  A Go string is a sequence of bytes, as \<^typ>\<open>string\<close> is. The three functions of package
  \<open>strings\<close> that the provider calls.
\<close>

definition HasPrefix :: "string \<Rightarrow> string \<Rightarrow> bool" where
  "HasPrefix s pre = (length pre \<le> length s \<and> take (length pre) s = pre)"

definition HasSuffix :: "string \<Rightarrow> string \<Rightarrow> bool" where
  "HasSuffix s suf = (length suf \<le> length s \<and> drop (length s - length suf) s = suf)"

definition TrimSuffix :: "string \<Rightarrow> string \<Rightarrow> string" where
  "TrimSuffix s suf = (if HasSuffix s suf then take (length s - length suf) s else s)"

fun Contains :: "string \<Rightarrow> string \<Rightarrow> bool" where
  "Contains [] substr = (substr = [])"
| "Contains (c # cs) substr = (HasPrefix (c # cs) substr \<or> Contains cs substr)"

text \<open>The verb \<open>%d\<close> of \<open>fmt.Sprintf\<close> on an integer: decimal digits, a minus sign first
  when the number is negative.\<close>

definition digit_char :: "nat \<Rightarrow> char" where
  "digit_char d = char_of (48 + d)"

function digits :: "nat \<Rightarrow> string" where
  "digits n = (if n < 10 then [digit_char n] else digits (n div 10) @ [digit_char (n mod 10)])"
  by pat_completeness auto
termination
  by (relation "measure id") auto

declare digits.simps [simp del]

text \<open>Reading decimal digits back: the number that a string of digits spells.\<close>

definition digit_value :: "char \<Rightarrow> nat" where
  "digit_value ch = of_char ch - 48"

definition decimal_value :: "string \<Rightarrow> nat" where
  "decimal_value ds = foldl (\<lambda>a ch. 10 * a + digit_value ch) 0 ds"

definition format_d :: "int \<Rightarrow> string" where
  "format_d i = (if i < 0 then CHR ''-'' # digits (nat (- i)) else digits (nat i))"

section \<open>Values of the plugin framework\<close>

text \<open>
  \<open>types.String\<close>, \<open>types.Int64\<close> and \<open>types.Bool\<close> are null, unknown or known; the zero
  value of each is null. \<open>ValueString\<close> and \<open>ValueBool\<close> give the zero value of the Go
  type for a null or unknown value.
\<close>

datatype 'a tfvalue = Null | Unknown | Known 'a

definition IsNull :: "'a tfvalue \<Rightarrow> bool" where
  "IsNull v = (case v of Null \<Rightarrow> True | Unknown \<Rightarrow> False | Known _ \<Rightarrow> False)"

definition ValueString :: "string tfvalue \<Rightarrow> string" where
  "ValueString v = (case v of Null \<Rightarrow> [] | Unknown \<Rightarrow> [] | Known s \<Rightarrow> s)"

definition ValueBool :: "bool tfvalue \<Rightarrow> bool" where
  "ValueBool v = (case v of Null \<Rightarrow> False | Unknown \<Rightarrow> False | Known b \<Rightarrow> b)"

definition StringValue :: "string \<Rightarrow> string tfvalue" where
  "StringValue s = Known s"

definition StringNull :: "string tfvalue" where
  "StringNull = Null"

datatype severity = SeverityError | SeverityWarning

record diagnostic =
  Severity :: severity
  Summary :: string
  Detail :: string

definition HasError :: "diagnostic list \<Rightarrow> bool" where
  "HasError ds = list_ex (\<lambda>d. Severity d = SeverityError) ds"

definition AddError :: "string \<Rightarrow> string \<Rightarrow> diagnostic list \<Rightarrow> diagnostic list" where
  "AddError summary detail ds =
     ds @ [\<lparr>Severity = SeverityError, Summary = summary, Detail = detail\<rparr>]"

section \<open>The client and its requests\<close>

record tls_Config =
  InsecureSkipVerify :: bool

record http_Transport =
  TLSClientConfig :: "tls_Config option"

record http_Client =
  Transport :: http_Transport

record ProxmoxClient =
  HTTPClient :: http_Client
  Endpoint :: string
  TokenID :: string
  TokenSecret :: string

text \<open>A request as \<open>DoRequest\<close> hands it to the transport, and what comes back: the status
  code and the result of \<open>io.ReadAll\<close> on the body (the bytes read, and the error that
  stopped the reading, if any).\<close>

record http_Request =
  Method :: string
  URL :: string
  Header :: "string \<rightharpoonup> string list"
  RequestBody :: string

record http_Response =
  StatusCode :: int
  Body :: "string \<times> string option"

definition Header_Set :: "string \<Rightarrow> string \<Rightarrow> http_Request \<Rightarrow> http_Request" where
  "Header_Set key v req = req\<lparr>Header := (Header req)(key \<mapsto> [v])\<rparr>"

section \<open>Decoded JSON\<close>

text \<open>
  \<open>json\<close> is a JSON text after the scanner of \<open>encoding/json\<close> has accepted it: objects keep
  their members in the order of the text, duplicates included, and a number carries the
  \<open>float64\<close> that \<open>strconv.ParseFloat\<close> gives for its literal (\<open>None\<close> when the literal is
  out of the range of \<open>float64\<close>). A finite \<open>float64\<close> is a rational number, and JSON has
  no literal for an infinity or a NaN.

  \<open>go_value\<close> is a value of type \<open>interface{}\<close> as \<open>encoding/json\<close> builds it: \<open>nil\<close>,
  \<open>bool\<close>, \<open>float64\<close>, \<open>string\<close>, \<open>[]interface{}\<close> or \<open>map[string]interface{}\<close>. A map is
  an association list with distinct keys.
\<close>

datatype json =
    JNull
  | JBool bool
  | JNumber "rat option"
  | JString string
  | JArray "json list"
  | JObject "(string \<times> json) list"

datatype go_value =
    Nil
  | Bool bool
  | Float64 rat
  | String string
  | Slice "go_value list"
  | Map "(string \<times> go_value) list"

type_synonym raw_record = "(string \<times> go_value) list"

section \<open>The world outside the provider\<close>

text \<open>
  The library calls whose results the provider does not determine are fields of one record:
  \<^item> \<open>json_Encode\<close>: \<open>json.NewEncoder(&buf).Encode(body)\<close>, an error text or the bytes written;
  \<^item> \<open>NewRequest_error\<close>: the error of \<open>http.NewRequest\<close> for a method and a URL, if any
    (the URL does not parse, the method is not a token);
  \<^item> \<open>Do\<close>: \<open>c.HTTPClient.Do(req)\<close>, an error text or the response;
  \<^item> \<open>follow_ups\<close>: the requests that the client sends of its own accord after a request
    handed to it, one for each redirect it follows (the client that \<open>Configure\<close> builds has no
    \<open>CheckRedirect\<close>, so it follows the redirects of the server);
  \<^item> \<open>json_scan\<close>: the syntax check of \<open>json.Unmarshal\<close>, an error text or the JSON read;
  \<^item> \<open>UnmarshalTypeError\<close>: the text of the error \<open>json.Unmarshal\<close> returns for a JSON value
    that does not fit its target;
  \<^item> \<open>int64_out_of_range\<close>: the result of the conversion \<open>int64(f)\<close> for a \<open>float64\<close> whose
    integer part is no \<open>int64\<close>, which Go leaves to the implementation.
\<close>

record world =
  json_Encode :: "go_value \<Rightarrow> string + string"
  NewRequest_error :: "string \<Rightarrow> string \<Rightarrow> string option"
  Do :: "http_Client \<Rightarrow> http_Request \<Rightarrow> string + http_Response"
  follow_ups :: "http_Client \<Rightarrow> http_Request \<Rightarrow> http_Request list"
  json_scan :: "string \<Rightarrow> string + json"
  UnmarshalTypeError :: "json \<Rightarrow> string"
  int64_out_of_range :: "rat \<Rightarrow> 64 word"

text \<open>
  \<open>DoRequest\<close>. The requests handed to the HTTP client, one for each call of
  \<open>c.HTTPClient.Do\<close>, are kept in a log, which every operation takes and returns.
  \<open>Header.Set\<close> replaces the values of a key; the two keys that \<open>DoRequest\<close> sets are in
  their canonical spelling already.
\<close>

definition DoRequest ::
  "world \<Rightarrow> ProxmoxClient \<Rightarrow> string \<Rightarrow> string \<Rightarrow> go_value option \<Rightarrow> http_Request list
     \<Rightarrow> (string + http_Response) \<times> http_Request list" where
  "DoRequest w c method path body sent =
     (case (case body of None \<Rightarrow> Inr [] | Some b \<Rightarrow> json_Encode w b) of
        Inl err \<Rightarrow> (Inl err, sent)
      | Inr buf \<Rightarrow>
          (let url = TrimSuffix (Endpoint c) ''/'' @ ''/api2/json'' @ path in
           case NewRequest_error w method url of
             Some err \<Rightarrow> (Inl err, sent)
           | None \<Rightarrow>
               (let req = \<lparr>Method = method, URL = url, Header = Map.empty, RequestBody = buf\<rparr>;
                    req = Header_Set ''Authorization''
                            (''PVEAPIToken='' @ TokenID c @ ''='' @ TokenSecret c) req;
                    req = Header_Set ''Content-Type'' ''application/json'' req
                in (Do w (HTTPClient c) req, sent @ [req]))))"

text \<open>What reaches the transport for a log of requests handed to a client: each request,
  and after it the requests with which the client followed the redirects of the server.\<close>

definition on_transport :: "world \<Rightarrow> http_Client \<Rightarrow> http_Request list \<Rightarrow> http_Request list" where
  "on_transport w hc handed = concat (map (\<lambda>req. req # follow_ups w hc req) handed)"

section \<open>The provider\<close>

record ProxmoxProviderModel =
  endpoint :: "string tfvalue"
  token_id :: "string tfvalue"
  token_secret :: "string tfvalue"
  skip_verify :: "bool tfvalue"

text \<open>\<open>Config\<close> is what \<open>req.Config.Get(ctx, &data)\<close> gives: its diagnostics and the model it
  filled in.\<close>

record 'model request =
  Config :: "diagnostic list \<times> 'model"

type_synonym ConfigureRequest = "ProxmoxProviderModel request"

record response =
  Diagnostics :: "diagnostic list"

record ConfigureResponse = response +
  DataSourceData :: "ProxmoxClient option"
  ResourceData :: "ProxmoxClient option"

definition Configure ::
  "ConfigureRequest \<Rightarrow> http_Request list \<Rightarrow> ConfigureResponse \<times> http_Request list" where
  "Configure req sent =
     (let data = snd (Config req);
          resp = \<lparr>Diagnostics = fst (Config req), DataSourceData = None, ResourceData = None\<rparr>
      in if HasError (Diagnostics resp) then (resp, sent)
         else if IsNull (endpoint data) then
           (resp\<lparr>Diagnostics := AddError ''Missing Configuration''
              ''The provider cannot create the Proxmox API client as there is a missing or empty value for the Proxmox endpoint.''
              (Diagnostics resp)\<rparr>, sent)
         else if IsNull (token_id data) then
           (resp\<lparr>Diagnostics := AddError ''Missing Configuration''
              ''The provider cannot create the Proxmox API client as there is a missing or empty value for the Proxmox API token ID.''
              (Diagnostics resp)\<rparr>, sent)
         else if IsNull (token_secret data) then
           (resp\<lparr>Diagnostics := AddError ''Missing Configuration''
              ''The provider cannot create the Proxmox API client as there is a missing or empty value for the Proxmox API token secret.''
              (Diagnostics resp)\<rparr>, sent)
         else
           (let tokenID = ValueString (token_id data) in
            if \<not> Contains tokenID ''!'' then
              (resp\<lparr>Diagnostics := AddError ''Invalid Token ID Format''
                 (''The API token ID should contain a '' @ [CHR 0x27] @ ''!'' @ [CHR 0x27]
                    @ '' character and follow the format '' @ [CHR 0x27]
                    @ ''user@realm!tokenname'' @ [CHR 0x27] @ '' (e.g., '' @ [CHR 0x27]
                    @ ''root@pam!mytesttoken'' @ [CHR 0x27] @ '').'')
                 (Diagnostics resp)\<rparr>, sent)
            else
              (let transport =
                     (if \<not> IsNull (skip_verify data) \<and> ValueBool (skip_verify data)
                      then \<lparr>TLSClientConfig = Some \<lparr>InsecureSkipVerify = True\<rparr>\<rparr>
                      else \<lparr>TLSClientConfig = None\<rparr>);
                   client = \<lparr>HTTPClient = \<lparr>Transport = transport\<rparr>,
                             Endpoint = ValueString (endpoint data),
                             TokenID = ValueString (token_id data),
                             TokenSecret = ValueString (token_secret data)\<rparr>
               in (resp\<lparr>DataSourceData := Some client, ResourceData := Some client\<rparr>, sent))))"

section \<open>The storages data source\<close>

datatype provider_data = ClientData ProxmoxClient | OtherData string

record StoragesDataSource =
  client :: "ProxmoxClient option"

record DataSourceConfigureRequest =
  ProviderData :: "provider_data option"

text \<open>\<open>OtherData t\<close> is provider data of another Go type, whose name \<open>%T\<close> prints as \<open>t\<close>.\<close>

definition DataSource_Configure ::
  "StoragesDataSource \<Rightarrow> DataSourceConfigureRequest \<Rightarrow> response \<times> StoragesDataSource" where
  "DataSource_Configure d req =
     (let resp = \<lparr>Diagnostics = []\<rparr> in
      case ProviderData req of
        None \<Rightarrow> (resp, d)
      | Some (OtherData t) \<Rightarrow>
          (resp\<lparr>Diagnostics := AddError ''Unexpected Data Source Configure Type''
             (''Expected *ProxmoxClient, got: '' @ t
                @ ''. Please report this issue to the provider developers.'')
             (Diagnostics resp)\<rparr>, d)
      | Some (ClientData c) \<Rightarrow> (resp, d\<lparr>client := Some c\<rparr>))"

record StorageModel =
  Storage :: "string tfvalue"
  Type :: "string tfvalue"
  Content :: "string tfvalue"
  Path :: "string tfvalue"
  Priority :: "64 word tfvalue"
  Digest :: "string tfvalue"
  PruneBackups :: "string tfvalue"

record StoragesDataSourceModel =
  ID :: "string tfvalue"
  Storages :: "StorageModel list"

type_synonym ReadRequest = "StoragesDataSourceModel request"

record ReadResponse = response +
  State :: "StoragesDataSourceModel option"

subsection \<open>Unmarshalling the response\<close>

text \<open>
  \<open>json.Unmarshal(body, &storageResponse)\<close> for the target
  \<^verbatim>\<open>struct { Data []map[string]interface{} `json:"data"` }\<close>,
  as package \<open>encoding/json\<close> decodes it: a member of the top-level object is stored in
  \<open>Data\<close> when its key is the field's name, letter case ignored, and skipped otherwise;
  \<open>null\<close> leaves a struct as it is and makes a slice or a map nil; a value that does not
  fit its target is skipped, and the first such value is the error returned at the end.
\<close>

definition lower :: "char \<Rightarrow> char" where
  "lower c = (let n = (of_char c :: nat) in if 65 \<le> n \<and> n \<le> 90 then char_of (n + 32) else c)"

definition field_matches :: "string \<Rightarrow> string \<Rightarrow> bool" where
  "field_matches name key = (key = name \<or> map lower key = map lower name)"

fun first_some :: "'a option list \<Rightarrow> 'a option" where
  "first_some [] = None"
| "first_some (None # xs) = first_some xs"
| "first_some (Some x # xs) = Some x"

text \<open>A value stored in an \<open>interface{}\<close>. The only value that does not fit is a number out
  of the range of \<open>float64\<close>: \<open>nil\<close> is stored for it.\<close>

fun valueInterface :: "json \<Rightarrow> go_value" where
  "valueInterface JNull = Nil"
| "valueInterface (JBool b) = Bool b"
| "valueInterface (JNumber None) = Nil"
| "valueInterface (JNumber (Some f)) = Float64 f"
| "valueInterface (JString s) = String s"
| "valueInterface (JArray vs) = Slice (map valueInterface vs)"
| "valueInterface (JObject kvs) =
     Map (foldl (\<lambda>m kv. AList.update (fst kv) (valueInterface (snd kv)) m) [] kvs)"

fun first_bad_number :: "json \<Rightarrow> json option" where
  "first_bad_number JNull = None"
| "first_bad_number (JBool b) = None"
| "first_bad_number (JNumber None) = Some (JNumber None)"
| "first_bad_number (JNumber (Some f)) = None"
| "first_bad_number (JString s) = None"
| "first_bad_number (JArray vs) = first_some (map first_bad_number vs)"
| "first_bad_number (JObject kvs) = first_some (map (\<lambda>kv. first_bad_number (snd kv)) kvs)"

definition saveError :: "json option \<Rightarrow> json option \<Rightarrow> json option" where
  "saveError err saved = (case saved of None \<Rightarrow> err | Some e \<Rightarrow> Some e)"

text \<open>A value decoded into an element of \<open>Data\<close>, a \<open>map[string]interface{}\<close>: an object
  adds its members to the map that is there, a later key replacing an earlier one.\<close>

fun decode_map :: "json \<Rightarrow> raw_record \<times> json option \<Rightarrow> raw_record \<times> json option" where
  "decode_map JNull (m, saved) = ([], saved)"
| "decode_map (JObject kvs) (m, saved) =
     (foldl (\<lambda>m kv. AList.update (fst kv) (valueInterface (snd kv)) m) m kvs,
      saveError (first_bad_number (JObject kvs)) saved)"
| "decode_map v (m, saved) = (m, saveError (Some v) saved)"

text \<open>An array decoded into the slice, element by element: element \<open>i\<close> is decoded into the
  element the backing array has at \<open>i\<close>, a new nil map when the array ends before \<open>i\<close>.\<close>

fun array_loop ::
  "json list \<Rightarrow> nat \<Rightarrow> raw_record list \<times> json option \<Rightarrow> raw_record list \<times> json option" where
  "array_loop [] i st = st"
| "array_loop (e # es) i (backing, saved) =
     (let backing = backing @ replicate (Suc i - length backing) [];
          (m, saved) = decode_map e (backing ! i, saved)
      in array_loop es (Suc i) (backing[i := m], saved))"

text \<open>The slice is its backing array and its length. After an array of \<open>k > 0\<close> elements the
  length is \<open>k\<close>; an empty array gives a new empty slice, \<open>null\<close> the nil slice.\<close>

type_synonym decodeState = "(raw_record list \<times> nat) \<times> json option"

fun decode_slice :: "json \<Rightarrow> decodeState \<Rightarrow> decodeState" where
  "decode_slice JNull ((backing, n), saved) = (([], 0), saved)"
| "decode_slice (JArray es) ((backing, n), saved) =
     (let (backing', saved') = array_loop es 0 (backing, saved)
      in if es = [] then (([], 0), saved') else ((backing', length es), saved'))"
| "decode_slice v ((backing, n), saved) = ((backing, n), saveError (Some v) saved)"

fun decode_struct :: "json \<Rightarrow> decodeState \<Rightarrow> decodeState" where
  "decode_struct JNull st = st"
| "decode_struct (JObject kvs) st =
     foldl (\<lambda>st kv. if field_matches ''data'' (fst kv) then decode_slice (snd kv) st else st)
       st kvs"
| "decode_struct v (sl, saved) = (sl, saveError (Some v) saved)"

definition Unmarshal :: "world \<Rightarrow> string \<Rightarrow> string + raw_record list" where
  "Unmarshal w body =
     (case json_scan w body of
        Inl err \<Rightarrow> Inl err
      | Inr v \<Rightarrow>
          (case decode_struct v (([], 0), None) of
             ((backing, n), Some bad) \<Rightarrow> Inl (UnmarshalTypeError w bad)
           | ((backing, n), None) \<Rightarrow> Inr (take n backing)))"

subsection \<open>Projection\<close>

text \<open>\<open>m[key]\<close> on a map of interfaces is \<open>nil\<close> for a key the map does not have; a type
  assertion \<open>v, ok := x.(T)\<close> is \<open>Some v\<close> when \<open>ok\<close>.\<close>

definition map_index :: "raw_record \<Rightarrow> string \<Rightarrow> go_value" where
  "map_index m key = (case map_of m key of None \<Rightarrow> Nil | Some v \<Rightarrow> v)"

definition assert_string :: "go_value \<Rightarrow> string option" where
  "assert_string x = (case x of String s \<Rightarrow> Some s | _ \<Rightarrow> None)"

definition assert_float64 :: "go_value \<Rightarrow> rat option" where
  "assert_float64 x = (case x of Float64 f \<Rightarrow> Some f | _ \<Rightarrow> None)"

text \<open>The conversion \<open>int64(f)\<close> discards the fraction of \<open>f\<close> (truncation towards zero);
  the result is that integer when it is an \<open>int64\<close>.\<close>

definition integer_part :: "rat \<Rightarrow> int" where
  "integer_part f = (if f < 0 then - \<lfloor>- f\<rfloor> else \<lfloor>f\<rfloor>)"

definition int64 :: "world \<Rightarrow> rat \<Rightarrow> 64 word" where
  "int64 w f =
     (if - (2 ^ 63) \<le> integer_part f \<and> integer_part f < 2 ^ 63 then word_of_int (integer_part f)
      else int64_out_of_range w f)"

definition string_field :: "raw_record \<Rightarrow> string \<Rightarrow> string tfvalue" where
  "string_field storageData key =
     (case assert_string (map_index storageData key) of
        Some val \<Rightarrow> StringValue val
      | None \<Rightarrow> StringNull)"

text \<open>The body of the loop of \<open>Read\<close>: the model of one raw record.\<close>

definition project :: "world \<Rightarrow> raw_record \<Rightarrow> StorageModel" where
  "project w storageData =
     \<lparr>Storage = string_field storageData ''storage'',
      Type = string_field storageData ''type'',
      Content = string_field storageData ''content'',
      Path = string_field storageData ''path'',
      Priority =
        (case assert_float64 (map_index storageData ''priority'') of
           Some val \<Rightarrow> Known (int64 w val)
         | None \<Rightarrow> Null),
      Digest = string_field storageData ''digest'',
      PruneBackups = string_field storageData ''prune-backups''\<rparr>"

definition zero_StorageModel :: StorageModel where
  "zero_StorageModel =
     \<lparr>Storage = Null, Type = Null, Content = Null, Path = Null, Priority = Null,
      Digest = Null, PruneBackups = Null\<rparr>"

text \<open>\<open>for i, storageData := range storageResponse.Data { ...; storages[i] = storage }\<close>\<close>

fun range_loop ::
  "world \<Rightarrow> nat \<Rightarrow> raw_record list \<Rightarrow> StorageModel list \<Rightarrow> StorageModel list" where
  "range_loop w i [] storages = storages"
| "range_loop w i (storageData # rest) storages =
     range_loop w (Suc i) rest (storages[i := project w storageData])"

subsection \<open>Read\<close>

text \<open>
  \<open>Read\<close> starts from a response with the diagnostics of \<open>req.Config.Get\<close> and no state of
  its own; \<open>resp.State.Set\<close> stores the model. A nil client makes the call of \<open>DoRequest\<close>
  panic at the first field it reads. The two debug lines written with \<open>tflog\<close> have no part
  in the result and are left out.
\<close>

datatype 'a outcome = Panic string | Return 'a

definition Read ::
  "world \<Rightarrow> StoragesDataSource \<Rightarrow> ReadRequest \<Rightarrow> http_Request list
     \<Rightarrow> ReadResponse outcome \<times> http_Request list" where
  "Read w d req sent =
     (let data = snd (Config req);
          resp = \<lparr>Diagnostics = fst (Config req), State = None\<rparr>
      in if HasError (Diagnostics resp) then (Return resp, sent)
         else
           (case client d of
              None \<Rightarrow> (Panic ''runtime error: invalid memory address or nil pointer dereference'', sent)
            | Some c \<Rightarrow>
                (case DoRequest w c ''GET'' ''/storage'' None sent of
                   (Inl err, sent') \<Rightarrow>
                     (Return (resp\<lparr>Diagnostics := AddError ''Client Error''
                        (''Unable to read storages, got error: '' @ err) (Diagnostics resp)\<rparr>),
                      sent')
                 | (Inr httpResp, sent') \<Rightarrow>
                     if StatusCode httpResp \<noteq> 200 then
                       (let body = fst (Body httpResp) in
                        (Return (resp\<lparr>Diagnostics := AddError ''API Error''
                           (''Unable to read storages, got status ''
                              @ format_d (StatusCode httpResp) @ '': '' @ body)
                           (Diagnostics resp)\<rparr>),
                         sent'))
                     else
                       (case Body httpResp of
                          (body, Some err) \<Rightarrow>
                            (Return (resp\<lparr>Diagnostics := AddError ''Read Error''
                               (''Unable to read response body: '' @ err) (Diagnostics resp)\<rparr>),
                             sent')
                        | (body, None) \<Rightarrow>
                            (case Unmarshal w body of
                               Inl err \<Rightarrow>
                                 (Return (resp\<lparr>Diagnostics := AddError ''Parse Error''
                                    (''Unable to parse response: '' @ err) (Diagnostics resp)\<rparr>),
                                  sent')
                             | Inr Data \<Rightarrow>
                                 (let storages =
                                        range_loop w 0 Data
                                          (replicate (length Data) zero_StorageModel);
                                      data = data\<lparr>Storages := storages,
                                                  ID := StringValue ''storages''\<rparr>
                                  in (Return (resp\<lparr>State := Some data\<rparr>), sent')))))))"

section \<open>The specification's words, and inputs to run the code on\<close>

text \<open>The request of the specification: one \<open>GET\<close> to \<open><endpoint>/api2/json/storage\<close> with
  the token in the \<open>Authorization\<close> header and a JSON content type.\<close>

definition spec_storage_request :: "ProxmoxClient \<Rightarrow> http_Request" where
  "spec_storage_request c =
     \<lparr>Method = ''GET'',
      URL = TrimSuffix (Endpoint c) ''/'' @ ''/api2/json/storage'',
      Header = [''Authorization'' \<mapsto> [''PVEAPIToken='' @ TokenID c @ ''='' @ TokenSecret c],
                ''Content-Type'' \<mapsto> [''application/json'']],
      RequestBody = []\<rparr>"

text \<open>An element of the \<open>data\<close> array that decodes into a map without an error, and the map
  it decodes into when the slice has no element there yet.\<close>

fun fits_map :: "json \<Rightarrow> bool" where
  "fits_map JNull = True"
| "fits_map (JObject kvs) = (first_bad_number (JObject kvs) = None)"
| "fits_map v = False"

definition raw_of :: "json \<Rightarrow> raw_record" where
  "raw_of e = fst (decode_map e ([], None))"

text \<open>A world whose server answers every request with one status and one body, without a
  redirect, and whose JSON scanner reads that body as given. A conversion out of the range of \<open>int64\<close> gives the
  least \<open>int64\<close>, as the conversion instruction of amd64 does.\<close>

definition serving :: "int \<Rightarrow> string \<Rightarrow> string + json \<Rightarrow> world" where
  "serving status body scanned =
     \<lparr>json_Encode = (\<lambda>b. Inl ''json: unsupported type''),
      NewRequest_error = (\<lambda>method url. None),
      Do = (\<lambda>c req. Inr \<lparr>StatusCode = status, Body = (body, None)\<rparr>),
      follow_ups = (\<lambda>c req. []),
      json_scan = (\<lambda>s. if s = body then scanned else Inl ''unexpected end of JSON input''),
      UnmarshalTypeError = (\<lambda>bad. ''json: cannot unmarshal value into Go value''),
      int64_out_of_range = (\<lambda>f. 0x8000000000000000)\<rparr>"

text \<open>A world in which \<open>http.NewRequest\<close> rejects the URL built from an endpoint without a
  scheme, as \<open>net/url\<close> does when the first path segment has a colon.\<close>

definition rejecting :: world where
  "rejecting =
     (serving 200 ''{}'' (Inr (JObject [])))
       \<lparr>NewRequest_error := (\<lambda>method url.
          if url = ''192.168.1.10:8006/api2/json/storage''
          then Some ''first path segment in URL cannot contain colon'' else None)\<rparr>"

text \<open>A world whose server redirects the request for the collection to the same path with a
  trailing \<open>/\<close>, and answers there: the client follows with a second request.\<close>

definition redirecting :: world where
  "redirecting =
     (serving 200 ''{}'' (Inr (JObject [])))
       \<lparr>follow_ups := (\<lambda>c req.
          [req\<lparr>URL := URL req @ ''/'',
               Header := (Header req)(''Content-Type'' := None, ''Referer'' \<mapsto> [URL req])\<rparr>])\<rparr>"

definition pve :: ProxmoxClient where
  "pve = \<lparr>HTTPClient = \<lparr>Transport = \<lparr>TLSClientConfig = None\<rparr>\<rparr>,
          Endpoint = ''https://pve.example.com:8006/'',
          TokenID = ''root@pam!terraform'', TokenSecret = ''secret''\<rparr>"

definition pve_config :: ProxmoxProviderModel where
  "pve_config = \<lparr>endpoint = Known ''https://pve.example.com:8006/'',
                 token_id = Known ''root@pam!terraform'', token_secret = Known ''secret'',
                 skip_verify = Null\<rparr>"

definition no_config :: ReadRequest where
  "no_config = \<lparr>Config = ([], \<lparr>ID = Null, Storages = []\<rparr>)\<rparr>"

definition local_dir_body :: string where
  \<open>local_dir_body = ''{"data":[{"storage":"local","type":"dir","priority":10}]}''\<close>

definition local_dir_json :: json where
  "local_dir_json =
     JObject [(''data'', JArray [JObject [(''storage'', JString ''local''),
       (''type'', JString ''dir''), (''priority'', JNumber (Some 10))]])]"

definition two_storages_body :: string where
  \<open>two_storages_body = ''{"data":[{"storage":"tank","type":"zfspool","digest":"0f"},{"path":"/var/lib/vz","storage":"local","priority":3}]}''\<close>

definition two_storages :: "json list" where
  "two_storages =
     [JObject [(''storage'', JString ''tank''), (''type'', JString ''zfspool''),
        (''digest'', JString ''0f'')],
      JObject [(''path'', JString ''/var/lib/vz''), (''storage'', JString ''local''),
        (''priority'', JNumber (Some 3))]]"

definition empty_data_body :: string where
  \<open>empty_data_body = ''{"data":[]}''\<close>

definition message_body :: string where
  \<open>message_body = ''{"message":"ok"}''\<close>

section \<open>Lemmas\<close>

lemma HasPrefix_single: "HasPrefix (x # xs) [c] = (x = c)"
  by (simp add: HasPrefix_def)

lemma Contains_single: "Contains s [c] = (c \<in> set s)"
  by (induction s) (auto simp: HasPrefix_single)

lemma HasSuffix_iff: "HasSuffix s suf = (\<exists>p. s = p @ suf)"
proof
  assume "HasSuffix s suf"
  then have "s = take (length s - length suf) s @ suf"
    by (metis HasSuffix_def append_take_drop_id)
  then show "\<exists>p. s = p @ suf" ..
next
  assume "\<exists>p. s = p @ suf"
  then show "HasSuffix s suf"
    by (auto simp: HasSuffix_def)
qed

lemma TrimSuffix_append: "TrimSuffix (p @ suf) suf = p"
  by (simp add: TrimSuffix_def HasSuffix_def)

lemma TrimSuffix_twice:
  assumes "HasSuffix (TrimSuffix s ''/'') ''/''"
  shows "HasSuffix s ''//''"
proof (cases "HasSuffix s ''/''")
  case True
  then obtain p where p: "s = p @ ''/''"
    using HasSuffix_iff by blast
  then have "HasSuffix p ''/''"
    using assms by (simp add: TrimSuffix_append)
  then obtain q where "p = q @ ''/''"
    using HasSuffix_iff by blast
  with p have "s = q @ ''//''"
    by simp
  then show ?thesis
    using HasSuffix_iff by blast
next
  case False
  then show ?thesis
    using assms by (simp add: TrimSuffix_def)
qed

lemma HasError_AddError: "HasError (AddError summary detail ds)"
  by (simp add: HasError_def AddError_def)

lemma DoRequest_storage:
  "DoRequest w c ''GET'' ''/storage'' None sent =
     (case NewRequest_error w ''GET'' (URL (spec_storage_request c)) of
        Some err \<Rightarrow> (Inl err, sent)
      | None \<Rightarrow> (Do w (HTTPClient c) (spec_storage_request c), sent @ [spec_storage_request c]))"
  by (simp add: DoRequest_def spec_storage_request_def Header_Set_def Let_def
      split: option.splits)

text \<open>The loop fills the slice it was given from index \<open>i\<close> on, one model for each record, in
  the order of the records.\<close>

lemma range_loop_map:
  "i + length rs \<le> length st \<Longrightarrow>
   range_loop w i rs st = take i st @ map (project w) rs @ drop (i + length rs) st"
proof (induction rs arbitrary: i st)
  case Nil
  then show ?case by simp
next
  case (Cons r rs)
  have "range_loop w i (r # rs) st = range_loop w (Suc i) rs (st[i := project w r])"
    by simp
  also have "\<dots> = take (Suc i) (st[i := project w r]) @ map (project w) rs
      @ drop (Suc i + length rs) (st[i := project w r])"
    using Cons.prems by (intro Cons.IH) simp
  also have "take (Suc i) (st[i := project w r]) = take i st @ [project w r]"
    using Cons.prems by (simp add: take_Suc_conv_app_nth)
  also have "drop (Suc i + length rs) (st[i := project w r]) = drop (i + length (r # rs)) st"
    by simp
  finally show ?case by simp
qed

lemma range_loop_all:
  "range_loop w 0 Data (replicate (length Data) zero_StorageModel) = map (project w) Data"
  using range_loop_map [of 0 Data "replicate (length Data) zero_StorageModel" w] by simp

text \<open>\<open>Read\<close> once the transport has answered.\<close>

lemma Read_response:
  assumes "\<not> HasError (fst (Config req))"
    and "client d = Some c"
    and "NewRequest_error w ''GET'' (URL (spec_storage_request c)) = None"
    and "Do w (HTTPClient c) (spec_storage_request c) = Inr httpResp"
  shows "Read w d req sent =
     (if StatusCode httpResp \<noteq> 200 then
        Return \<lparr>Diagnostics = AddError ''API Error''
           (''Unable to read storages, got status '' @ format_d (StatusCode httpResp)
              @ '': '' @ fst (Body httpResp)) (fst (Config req)), State = None\<rparr>
      else
        (case snd (Body httpResp) of
           Some err \<Rightarrow>
             Return \<lparr>Diagnostics = AddError ''Read Error''
               (''Unable to read response body: '' @ err) (fst (Config req)), State = None\<rparr>
         | None \<Rightarrow>
             (case Unmarshal w (fst (Body httpResp)) of
                Inl err \<Rightarrow>
                  Return \<lparr>Diagnostics = AddError ''Parse Error''
                    (''Unable to parse response: '' @ err) (fst (Config req)), State = None\<rparr>
              | Inr Data \<Rightarrow>
                  Return \<lparr>Diagnostics = fst (Config req),
                    State = Some \<lparr>ID = Known ''storages'',
                                  Storages = map (project w) Data\<rparr>\<rparr>)),
      sent @ [spec_storage_request c])"
proof -
  obtain body err where b: "Body httpResp = (body, err)"
    by (cases "Body httpResp")
  obtain i s where m: "snd (Config req) = \<lparr>ID = i, Storages = s\<rparr>"
    by (cases "snd (Config req)") simp
  show ?thesis
    using assms b m
    by (simp add: Read_def DoRequest_storage range_loop_all StringValue_def
        split: option.splits sum.splits)
qed

lemma Read_sent:
  assumes "\<not> HasError (fst (Config req))"
    and "client d = Some c"
  shows "snd (Read w d req sent) =
     (case NewRequest_error w ''GET'' (URL (spec_storage_request c)) of
        Some err \<Rightarrow> sent
      | None \<Rightarrow> sent @ [spec_storage_request c])"
proof (cases "NewRequest_error w ''GET'' (URL (spec_storage_request c))")
  case None
  show ?thesis
  proof (cases "Do w (HTTPClient c) (spec_storage_request c)")
    case (Inl err)
    with None assms show ?thesis
      by (simp add: Read_def DoRequest_storage)
  next
    case (Inr httpResp)
    from Read_response [OF assms None Inr, of sent] None show ?thesis
      by simp
  qed
next
  case (Some err)
  with assms show ?thesis
    by (simp add: Read_def DoRequest_storage)
qed

lemma saveError_None: "saveError None saved = saved"
  by (simp add: saveError_def split: option.splits)

lemma decode_map_fits: "fits_map e \<Longrightarrow> decode_map e ([], saved) = (raw_of e, saved)"
  by (cases e) (simp_all add: raw_of_def saveError_def split: option.splits)

lemma array_loop_fits:
  "length backing = i \<Longrightarrow> list_all fits_map es \<Longrightarrow>
   array_loop es i (backing, saved) = (backing @ map raw_of es, saved)"
proof (induction es arbitrary: i backing)
  case Nil
  then show ?case by simp
next
  case (Cons e es)
  have grow: "backing @ replicate (Suc i - length backing) [] = backing @ [[]]"
    unfolding Cons.prems(1) [symmetric] by simp
  have at: "(backing @ [[]]) ! i = []"
    unfolding Cons.prems(1) [symmetric] by simp
  have put: "(backing @ [[]])[i := raw_of e] = backing @ [raw_of e]"
    unfolding Cons.prems(1) [symmetric] by simp
  have "array_loop (e # es) i (backing, saved) =
      array_loop es (Suc i) (backing @ [raw_of e], saved)"
    using Cons.prems(2) by (simp add: grow at put decode_map_fits)
  also have "\<dots> = ((backing @ [raw_of e]) @ map raw_of es, saved)"
    using Cons.prems by (intro Cons.IH) simp_all
  finally show ?case by simp
qed

lemma decode_struct_no_field:
  assumes "\<not> list_ex (\<lambda>kv. field_matches ''data'' (fst kv)) kvs"
  shows "decode_struct (JObject kvs) st = st"
proof -
  have "foldl (\<lambda>st kv. if field_matches ''data'' (fst kv) then decode_slice (snd kv) st else st)
      st kvs = st"
    using assms by (induction kvs arbitrary: st) simp_all
  then show ?thesis
    by simp
qed

lemma decode_struct_other:
  assumes "v \<noteq> JNull" and "\<forall>kvs. v \<noteq> JObject kvs"
  shows "decode_struct v (([], 0), None) = (([], 0), Some v)"
  using assms by (cases v) (simp_all add: saveError_def)

lemma Unmarshal_data_array:
  assumes "json_scan w body = Inr (JObject [(''data'', JArray es)])"
    and "list_all fits_map es"
  shows "Unmarshal w body = Inr (map raw_of es)"
proof -
  have "array_loop es 0 ([], None) = ([] @ map raw_of es, None)"
    using assms(2) by (intro array_loop_fits) simp_all
  then show ?thesis
    using assms(1) by (cases es) (simp_all add: Unmarshal_def field_matches_def)
qed

text \<open>The integer part of a number lies towards zero from it, less than one away.\<close>

lemma integer_part_toward_zero:
  "\<bar>of_int (integer_part f)\<bar> \<le> \<bar>f\<bar> \<and> \<bar>f\<bar> < \<bar>of_int (integer_part f)\<bar> + 1
     \<and> (0 \<le> f \<longrightarrow> 0 \<le> integer_part f) \<and> (f \<le> 0 \<longrightarrow> integer_part f \<le> 0)"
proof (cases "f < 0")
  case True
  have "of_int \<lfloor>- f\<rfloor> \<le> - f" and "- f < of_int \<lfloor>- f\<rfloor> + 1" and "0 \<le> \<lfloor>- f\<rfloor>"
    using True by linarith+
  then show ?thesis using True by (simp add: integer_part_def)
next
  case False
  have "of_int \<lfloor>f\<rfloor> \<le> f" and "f < of_int \<lfloor>f\<rfloor> + 1" and "0 \<le> \<lfloor>f\<rfloor>"
    using False by linarith+
  then show ?thesis using False by (auto simp add: integer_part_def)
qed

lemma sint_int64_in_range:
  assumes "- (2 ^ 63) \<le> integer_part f" and "integer_part f < 2 ^ 63"
  shows "sint (int64 w f) = integer_part f"
  using assms by (simp add: int64_def sint_sbintrunc' signed_take_bit_int_eq_self)

text \<open>
  The decimal spelling of an integer determines the integer and has no colon in it, so the
  detail of an API error determines the status code and the body it was built from.
\<close>

lemma digit_value_digit_char: "d < 10 \<Longrightarrow> digit_value (digit_char d) = d"
  by (simp add: digit_value_def digit_char_def)

lemma digits_value: "decimal_value (digits n) = n"
  unfolding decimal_value_def
proof (induction n rule: digits.induct)
  case (1 n)
  show ?case
  proof (cases "n < 10")
    case True
    then show ?thesis
      by (subst digits.simps) (simp add: digit_value_digit_char)
  next
    case False
    then have "foldl (\<lambda>a ch. 10 * a + digit_value ch) 0 (digits n) =
        10 * foldl (\<lambda>a ch. 10 * a + digit_value ch) 0 (digits (n div 10))
          + digit_value (digit_char (n mod 10))"
      by (subst digits.simps) simp
    also have "\<dots> = 10 * (n div 10) + n mod 10"
      using False "1.IH" by (simp add: digit_value_digit_char)
    finally show ?thesis by simp
  qed
qed

lemma digits_inj: "digits n = digits m \<Longrightarrow> n = m"
  by (metis digits_value)

lemma digits_chars: "ch \<in> set (digits n) \<Longrightarrow> 48 \<le> (of_char ch :: nat) \<and> (of_char ch :: nat) \<le> 57"
proof (induction n rule: digits.induct)
  case (1 n)
  show ?case
  proof (cases "n < 10")
    case True
    with "1.prems" show ?thesis
      by (subst (asm) digits.simps) (simp add: digit_char_def)
  next
    case False
    with "1.prems" have "ch \<in> set (digits (n div 10)) \<or> ch = digit_char (n mod 10)"
      by (subst (asm) digits.simps) auto
    then show ?thesis
    proof
      assume "ch \<in> set (digits (n div 10))"
      with False "1.IH" show ?thesis by simp
    next
      assume c: "ch = digit_char (n mod 10)"
      have "n mod 10 < 10" by simp
      then have "of_char (digit_char (n mod 10)) = 48 + n mod 10"
        by (simp add: digit_char_def)
      with c show ?thesis by simp
    qed
  qed
qed

lemma digits_not_Nil: "digits n \<noteq> []"
  by (subst digits.simps) (simp del: digits.simps)

lemma format_d_inj: "format_d i = format_d j \<Longrightarrow> i = j"
proof -
  assume e: "format_d i = format_d j"
  have neg: "hd (format_d k) = CHR ''-''" if "k < 0" for k
    using that by (simp add: format_d_def)
  have pos: "hd (format_d k) \<noteq> CHR ''-''" if "\<not> k < 0" for k
  proof -
    have "hd (digits (nat k)) \<in> set (digits (nat k))"
      using digits_not_Nil by simp
    then have "48 \<le> (of_char (hd (digits (nat k))) :: nat)"
      using digits_chars by blast
    then have "hd (digits (nat k)) \<noteq> CHR ''-''"
      by auto
    with that show ?thesis by (simp add: format_d_def)
  qed
  show "i = j"
  proof (cases "i < 0")
    case True
    then have "j < 0" using e neg pos by metis
    with True e have "digits (nat (- i)) = digits (nat (- j))"
      by (simp add: format_d_def)
    then have "nat (- i) = nat (- j)" by (rule digits_inj)
    with True \<open>j < 0\<close> show ?thesis by simp
  next
    case False
    then have "\<not> j < 0" using e neg pos by metis
    with False e have "digits (nat i) = digits (nat j)"
      by (simp add: format_d_def)
    then have "nat i = nat j" by (rule digits_inj)
    with False \<open>\<not> j < 0\<close> show ?thesis by simp
  qed
qed

lemma format_d_no_colon: "CHR '':'' \<notin> set (format_d i)"
proof
  assume a: "CHR '':'' \<in> set (format_d i)"
  then have "CHR '':'' \<in> set (digits (nat (- i))) \<or> CHR '':'' \<in> set (digits (nat i))"
    by (auto simp: format_d_def split: if_splits)
  then have "(of_char (CHR '':'') :: nat) \<le> 57"
    using digits_chars by blast
  then show False by simp
qed

lemma split_at_first:
  assumes "xs @ c # ys = xs' @ c # ys'" and "c \<notin> set xs" and "c \<notin> set xs'"
  shows "xs = xs' \<and> ys = ys'"
  using assms
proof (induction xs arbitrary: xs')
  case Nil
  then show ?case by (cases xs') auto
next
  case (Cons x xs)
  then show ?case by (cases xs') auto
qed

lemma API_Error_detail_inj:
  assumes "''Unable to read storages, got status '' @ format_d i @ '': '' @ b =
           ''Unable to read storages, got status '' @ format_d j @ '': '' @ b'"
  shows "i = j \<and> b = b'"
proof -
  from assms have "format_d i @ CHR '':'' # (CHR '' '' # b) = format_d j @ CHR '':'' # (CHR '' '' # b')"
    by simp
  then have "format_d i = format_d j \<and> CHR '' '' # b = CHR '' '' # b'"
    by (rule split_at_first) (simp_all add: format_d_no_colon)
  then show ?thesis
    using format_d_inj by simp
qed

text \<open>A key is stored in \<open>Data\<close> exactly when it spells \<open>data\<close> in some letter case.\<close>

lemma field_matches_data: "field_matches ''data'' key = (map lower key = ''data'')"
proof -
  have "map lower ''data'' = ''data''"
    by (simp add: lower_def)
  then show ?thesis
    by (auto simp: field_matches_def)
qed

text \<open>The data source takes the client that the provider made.\<close>

lemma DataSource_Configure_client:
  "DataSource_Configure d \<lparr>ProviderData = Some (ClientData c)\<rparr> =
     (\<lparr>Diagnostics = []\<rparr>, d\<lparr>client := Some c\<rparr>)"
  by (simp add: DataSource_Configure_def)

text \<open>A required attribute that is null is refused as missing configuration, the endpoint
  first, then the token identifier, then the token secret.\<close>

lemma Configure_missing_attribute:
  assumes "\<not> HasError (fst (Config req))"
    and "IsNull (endpoint (snd (Config req))) \<or> IsNull (token_id (snd (Config req)))
           \<or> IsNull (token_secret (snd (Config req)))"
  shows "\<exists>detail. Configure req sent =
     (\<lparr>Diagnostics = fst (Config req) @
          [\<lparr>Severity = SeverityError, Summary = ''Missing Configuration'', Detail = detail\<rparr>],
       DataSourceData = None, ResourceData = None\<rparr>, sent)"
proof (cases "IsNull (endpoint (snd (Config req)))")
  case True
  with assms(1) show ?thesis
    by (simp add: Configure_def Let_def AddError_def)
next
  case endpoint_set: False
  show ?thesis
  proof (cases "IsNull (token_id (snd (Config req)))")
    case True
    with assms(1) endpoint_set show ?thesis
      by (simp add: Configure_def Let_def AddError_def)
  next
    case False
    with assms endpoint_set show ?thesis
      by (simp add: Configure_def Let_def AddError_def)
  qed
qed

lemma format_d_decimal: "0 \<le> i \<Longrightarrow> int (decimal_value (format_d i)) = i"
  by (simp add: format_d_def digits_value)

text \<open>The transport sees the requests of a log in the order of the log.\<close>

lemma on_transport_append:
  "on_transport w hc (xs @ ys) = on_transport w hc xs @ on_transport w hc ys"
  by (simp add: on_transport_def)

lemma on_transport_single: "on_transport w hc [r] = r # follow_ups w hc r"
  by (simp add: on_transport_def)

text \<open>\<open>Read\<close> when \<open>http.NewRequest\<close> rejects the URL.\<close>

lemma Read_rejected:
  assumes "\<not> HasError (fst (Config req))"
    and "client d = Some c"
    and "NewRequest_error w ''GET'' (URL (spec_storage_request c)) = Some err"
  shows "Read w d req sent =
     (Return \<lparr>Diagnostics = fst (Config req) @
          [\<lparr>Severity = SeverityError, Summary = ''Client Error'',
            Detail = ''Unable to read storages, got error: '' @ err\<rparr>],
        State = None\<rparr>,
      sent)"
  using assms by (simp add: Read_def DoRequest_storage AddError_def)

section \<open>The claims\<close>

text \<open>
  The theorems about \<open>Read\<close> share their first hypotheses, which say how far the invocation
  got: the configuration was read without an error, the data source has its client,
  \<open>http.NewRequest\<close> accepted the URL, and the transport returned a response.
\<close>

text \<open>
  C1. For the response body \<open>{"data":[{"storage":"local","type":"dir","priority":10}]}\<close>,
  \<open>Read\<close> produces exactly one record, with identifier \<open>local\<close>, type \<open>dir\<close>, priority 10,
  and content, path, digest and prune-backups null. The last hypothesis is the scanner's
  reading of the body: the JSON that the text spells.
\<close>

theorem Read_local_dir:
  assumes "\<not> HasError (fst (Config req))"
    and "client d = Some c"
    and "NewRequest_error w ''GET'' (URL (spec_storage_request c)) = None"
    and "Do w (HTTPClient c) (spec_storage_request c) =
           Inr \<lparr>StatusCode = 200, Body = (local_dir_body, None)\<rparr>"
    and "json_scan w local_dir_body = Inr local_dir_json"
  shows "Read w d req sent =
     (Return \<lparr>Diagnostics = fst (Config req),
        State = Some \<lparr>ID = Known ''storages'',
          Storages = [\<lparr>Storage = Known ''local'', Type = Known ''dir'', Content = Null,
                       Path = Null, Priority = Known 10, Digest = Null,
                       PruneBackups = Null\<rparr>]\<rparr>\<rparr>,
      sent @ [spec_storage_request c])"
proof -
  have u: "Unmarshal w local_dir_body =
      Inr [[(''storage'', String ''local''), (''type'', String ''dir''),
            (''priority'', Float64 10)]]"
    using assms(5) by (simp add: Unmarshal_def local_dir_json_def field_matches_def saveError_def)
  have p: "project w [(''storage'', String ''local''), (''type'', String ''dir''),
            (''priority'', Float64 10)] =
      \<lparr>Storage = Known ''local'', Type = Known ''dir'', Content = Null,
        Path = Null, Priority = Known 10, Digest = Null, PruneBackups = Null\<rparr>"
    by (simp add: project_def string_field_def map_index_def assert_string_def
        assert_float64_def StringValue_def StringNull_def int64_def integer_part_def)
  show ?thesis
    using Read_response [OF assms(1-4), of sent] by (simp add: u p)
qed

theorem Read_local_dir_witness:
  "Read (serving 200 local_dir_body (Inr local_dir_json)) \<lparr>client = Some pve\<rparr> no_config [] =
     (Return \<lparr>Diagnostics = [],
        State = Some \<lparr>ID = Known ''storages'',
          Storages = [\<lparr>Storage = Known ''local'', Type = Known ''dir'', Content = Null,
                       Path = Null, Priority = Known 10, Digest = Null,
                       PruneBackups = Null\<rparr>]\<rparr>\<rparr>,
      [spec_storage_request pve])"
  using Read_local_dir [where req = no_config and d = "\<lparr>client = Some pve\<rparr>" and c = pve
      and w = "serving 200 local_dir_body (Inr local_dir_json)" and sent = "[]"]
  by (simp add: serving_def HasError_def no_config_def)

text \<open>
  C2. Whatever slice of raw records \<open>Unmarshal\<close> decodes, \<open>Read\<close> stores one model for each
  record, in the order of the records: the list of the models is the list of the records
  mapped through the projection, nothing dropped, moved or merged. When the body is an
  object whose \<open>data\<close> member is an array of objects, there is one model for each element of
  the array; for the empty array the operation succeeds with no record.
\<close>

theorem Read_one_model_per_record:
  assumes "\<not> HasError (fst (Config req))"
    and "client d = Some c"
    and "NewRequest_error w ''GET'' (URL (spec_storage_request c)) = None"
    and "Do w (HTTPClient c) (spec_storage_request c) =
           Inr \<lparr>StatusCode = 200, Body = (body, None)\<rparr>"
  shows "(Unmarshal w body = Inr Data \<longrightarrow>
            Read w d req sent =
              (Return \<lparr>Diagnostics = fst (Config req),
                 State = Some \<lparr>ID = Known ''storages'',
                               Storages = map (project w) Data\<rparr>\<rparr>,
               sent @ [spec_storage_request c]))
       \<and> (json_scan w body = Inr (JObject [(''data'', JArray es)]) \<and> list_all fits_map es \<longrightarrow>
            Read w d req sent =
              (Return \<lparr>Diagnostics = fst (Config req),
                 State = Some \<lparr>ID = Known ''storages'',
                               Storages = map (\<lambda>e. project w (raw_of e)) es\<rparr>\<rparr>,
               sent @ [spec_storage_request c]))"
  using Read_response [OF assms, of sent]
  by (auto simp: Unmarshal_data_array comp_def)

theorem Read_one_model_per_record_witness:
  "Read (serving 200 two_storages_body (Inr (JObject [(''data'', JArray two_storages)])))
      \<lparr>client = Some pve\<rparr> no_config [] =
     (Return \<lparr>Diagnostics = [],
        State = Some \<lparr>ID = Known ''storages'',
          Storages =
            [\<lparr>Storage = Known ''tank'', Type = Known ''zfspool'', Content = Null, Path = Null,
               Priority = Null, Digest = Known ''0f'', PruneBackups = Null\<rparr>,
             \<lparr>Storage = Known ''local'', Type = Null, Content = Null,
               Path = Known ''/var/lib/vz'', Priority = Known 3, Digest = Null,
               PruneBackups = Null\<rparr>]\<rparr>\<rparr>,
      [spec_storage_request pve])
   \<and> Read (serving 200 empty_data_body (Inr (JObject [(''data'', JArray [])])))
      \<lparr>client = Some pve\<rparr> no_config [] =
     (Return \<lparr>Diagnostics = [], State = Some \<lparr>ID = Known ''storages'', Storages = []\<rparr>\<rparr>,
      [spec_storage_request pve])"
proof -
  have p: "map (\<lambda>e. project w (raw_of e)) two_storages =
      [\<lparr>Storage = Known ''tank'', Type = Known ''zfspool'', Content = Null, Path = Null,
         Priority = Null, Digest = Known ''0f'', PruneBackups = Null\<rparr>,
       \<lparr>Storage = Known ''local'', Type = Null, Content = Null,
         Path = Known ''/var/lib/vz'', Priority = Known 3, Digest = Null,
         PruneBackups = Null\<rparr>]" for w
    by (simp add: two_storages_def raw_of_def project_def string_field_def map_index_def
        assert_string_def assert_float64_def StringValue_def StringNull_def int64_def
        integer_part_def)
  have f: "list_all fits_map two_storages"
    by (simp add: two_storages_def)
  show ?thesis
    using
      Read_one_model_per_record [where req = no_config and d = "\<lparr>client = Some pve\<rparr>"
        and c = pve and body = two_storages_body and es = two_storages and sent = "[]"
        and w = "serving 200 two_storages_body (Inr (JObject [(''data'', JArray two_storages)]))"]
      Read_one_model_per_record [where req = no_config and d = "\<lparr>client = Some pve\<rparr>"
        and c = pve and body = empty_data_body and es = "[]" and sent = "[]"
        and w = "serving 200 empty_data_body (Inr (JObject [(''data'', JArray [])]))"]
    by (simp add: serving_def HasError_def no_config_def p f)
qed

text \<open>
  C3, as the code has it. A body that is a JSON object with no member named \<open>data\<close> (letter
  case ignored) is no decoding error: \<open>json.Unmarshal\<close> leaves the field \<open>Data\<close> nil and \<open>Read\<close>
  succeeds with no record. \<open>Read\<close> reports a parse error when the body is not valid JSON, and
  when its top-level value is an array, a string, a number or a boolean.
\<close>

theorem Read_decode_outcomes:
  assumes "\<not> HasError (fst (Config req))"
    and "client d = Some c"
    and "NewRequest_error w ''GET'' (URL (spec_storage_request c)) = None"
    and "Do w (HTTPClient c) (spec_storage_request c) =
           Inr \<lparr>StatusCode = 200, Body = (body, None)\<rparr>"
  shows "(json_scan w body = Inr (JObject kvs)
            \<and> \<not> list_ex (\<lambda>kv. field_matches ''data'' (fst kv)) kvs \<longrightarrow>
          Read w d req sent =
            (Return \<lparr>Diagnostics = fst (Config req),
               State = Some \<lparr>ID = Known ''storages'', Storages = []\<rparr>\<rparr>,
             sent @ [spec_storage_request c]))
       \<and> (json_scan w body = Inl err \<longrightarrow>
          Read w d req sent =
            (Return \<lparr>Diagnostics = fst (Config req) @
                 [\<lparr>Severity = SeverityError, Summary = ''Parse Error'',
                   Detail = ''Unable to parse response: '' @ err\<rparr>],
               State = None\<rparr>,
             sent @ [spec_storage_request c]))
       \<and> (json_scan w body = Inr v \<and> v \<noteq> JNull \<and> (\<forall>members. v \<noteq> JObject members) \<longrightarrow>
          Read w d req sent =
            (Return \<lparr>Diagnostics = fst (Config req) @
                 [\<lparr>Severity = SeverityError, Summary = ''Parse Error'',
                   Detail = ''Unable to parse response: '' @ UnmarshalTypeError w v\<rparr>],
               State = None\<rparr>,
             sent @ [spec_storage_request c]))"
proof -
  have a: "Unmarshal w body = Inr []"
    if "json_scan w body = Inr (JObject kvs)"
      and "\<not> list_ex (\<lambda>kv. field_matches ''data'' (fst kv)) kvs"
    using that by (simp add: Unmarshal_def decode_struct_no_field del: decode_struct.simps)
  have b: "Unmarshal w body = Inl err" if "json_scan w body = Inl err"
    using that by (simp add: Unmarshal_def)
  have c: "Unmarshal w body = Inl (UnmarshalTypeError w v)"
    if "json_scan w body = Inr v" and "v \<noteq> JNull" and "\<forall>members. v \<noteq> JObject members"
    using that by (simp add: Unmarshal_def decode_struct_other del: decode_struct.simps)
  show ?thesis
    using Read_response [OF assms, of sent] a b c
    by (auto simp: AddError_def)
qed

theorem Read_decode_outcomes_witness:
  "Read (serving 200 message_body (Inr (JObject [(''message'', JString ''ok'')])))
      \<lparr>client = Some pve\<rparr> no_config [] =
     (Return \<lparr>Diagnostics = [], State = Some \<lparr>ID = Known ''storages'', Storages = []\<rparr>\<rparr>,
      [spec_storage_request pve])
   \<and> Read (serving 200 ''<html>'' (Inl ''invalid character'')) \<lparr>client = Some pve\<rparr>
        no_config [] =
     (Return \<lparr>Diagnostics =
          [\<lparr>Severity = SeverityError, Summary = ''Parse Error'',
            Detail = ''Unable to parse response: invalid character''\<rparr>],
        State = None\<rparr>,
      [spec_storage_request pve])
   \<and> Read (serving 200 ''[]'' (Inr (JArray []))) \<lparr>client = Some pve\<rparr> no_config [] =
     (Return \<lparr>Diagnostics =
          [\<lparr>Severity = SeverityError, Summary = ''Parse Error'',
            Detail = ''Unable to parse response: json: cannot unmarshal value into Go value''\<rparr>],
        State = None\<rparr>,
      [spec_storage_request pve])"
  using
    Read_decode_outcomes [where req = no_config and d = "\<lparr>client = Some pve\<rparr>" and c = pve
      and body = message_body and kvs = "[(''message'', JString ''ok'')]" and sent = "[]"
      and w = "serving 200 message_body (Inr (JObject [(''message'', JString ''ok'')]))"]
    Read_decode_outcomes [where req = no_config and d = "\<lparr>client = Some pve\<rparr>" and c = pve
      and body = "''<html>''" and err = "''invalid character''" and sent = "[]"
      and w = "serving 200 ''<html>'' (Inl ''invalid character'')"]
    Read_decode_outcomes [where req = no_config and d = "\<lparr>client = Some pve\<rparr>" and c = pve
      and body = "''[]''" and v = "JArray []" and sent = "[]"
      and w = "serving 200 ''[]'' (Inr (JArray []))"]
  by (simp add: serving_def HasError_def no_config_def field_matches_def)

text \<open>
  C3 as stated fails: the body \<open>{}\<close> is valid JSON without the key \<open>data\<close>, the server
  answers 200 with it, and \<open>Read\<close> returns without a diagnostic, the state set to no record.
\<close>

theorem Read_object_without_data_succeeds:
  "Read (serving 200 ''{}'' (Inr (JObject []))) \<lparr>client = Some pve\<rparr> no_config [] =
     (Return \<lparr>Diagnostics = [], State = Some \<lparr>ID = Known ''storages'', Storages = []\<rparr>\<rparr>,
      [spec_storage_request pve])"
proof -
  have "Unmarshal (serving 200 ''{}'' (Inr (JObject []))) ''{}'' = Inr []"
    by (simp add: Unmarshal_def serving_def)
  then show ?thesis
    using Read_response [where req = no_config and d = "\<lparr>client = Some pve\<rparr>" and c = pve
        and w = "serving 200 ''{}'' (Inr (JObject []))" and sent = "[]"
        and httpResp = "\<lparr>StatusCode = 200, Body = (''{}'', None)\<rparr>"]
    by (simp add: serving_def HasError_def no_config_def)
qed

text \<open>
  C4, as the code has it. \<open>Configure\<close> stores the endpoint in the client as it was
  configured, a trailing \<open>/\<close> kept. \<open>DoRequest\<close> takes one trailing \<open>/\<close> off when it builds the
  URL of a request: every request it issues goes to the trimmed endpoint followed by
  \<open>/api2/json\<close> and the path, and the trimmed endpoint ends in \<open>/\<close> only when the endpoint
  ended in \<open>//\<close>.
\<close>

theorem Configure_stores_endpoint:
  assumes "DataSourceData (fst (Configure req sent)) = Some c"
  shows "Endpoint c = ValueString (endpoint (snd (Config req)))
     \<and> (\<forall>r \<in> set (snd (DoRequest w c verb path body [])).
           URL r = TrimSuffix (ValueString (endpoint (snd (Config req)))) ''/''
                     @ ''/api2/json'' @ path)
     \<and> (\<not> HasSuffix (Endpoint c) ''//'' \<longrightarrow> \<not> HasSuffix (TrimSuffix (Endpoint c) ''/'') ''/'')"
proof -
  have e: "Endpoint c = ValueString (endpoint (snd (Config req)))"
    using assms by (auto simp: Configure_def Let_def split: if_splits)
  have u: "\<forall>r \<in> set (snd (DoRequest w c verb path body [])).
      URL r = TrimSuffix (Endpoint c) ''/'' @ ''/api2/json'' @ path"
    by (auto simp: DoRequest_def Let_def Header_Set_def split: option.splits sum.splits)
  show ?thesis
    using e u TrimSuffix_twice [of "Endpoint c"] by auto
qed

theorem Configure_stores_endpoint_witness:
  "DataSourceData (fst (Configure \<lparr>Config = ([], pve_config)\<rparr> [])) = Some pve
     \<and> Endpoint pve = ''https://pve.example.com:8006/''
     \<and> snd (DoRequest (serving 200 ''{}'' (Inr (JObject []))) pve ''GET'' ''/storage'' None [])
          = [spec_storage_request pve]
     \<and> URL (spec_storage_request pve) = ''https://pve.example.com:8006/api2/json/storage''
     \<and> \<not> HasSuffix (Endpoint pve) ''//''
     \<and> \<not> HasSuffix (TrimSuffix (Endpoint pve) ''/'') ''/''"
proof -
  have h: "DataSourceData (fst (Configure \<lparr>Config = ([], pve_config)\<rparr> [])) = Some pve"
    by (simp add: Configure_def Let_def pve_config_def pve_def HasError_def IsNull_def
        ValueString_def HasPrefix_def)
  have s: "snd (DoRequest (serving 200 ''{}'' (Inr (JObject []))) pve ''GET'' ''/storage'' None [])
          = [spec_storage_request pve]"
    by (simp add: DoRequest_storage serving_def)
  have n: "\<not> HasSuffix (Endpoint pve) ''//''"
    by (simp add: pve_def HasSuffix_def)
  show ?thesis
    using h s n
      Configure_stores_endpoint [OF h, where w = "serving 200 ''{}'' (Inr (JObject []))"
        and verb = "''GET''" and path = "''/storage''" and body = None]
    by (simp add: pve_config_def pve_def ValueString_def spec_storage_request_def
        TrimSuffix_def HasSuffix_def)
qed

text \<open>
  C4 as stated fails: configured with the endpoint \<open>https://pve.example.com:8006/\<close>,
  \<open>Configure\<close> produces a client whose \<open>Endpoint\<close> field ends in \<open>/\<close>.
\<close>

theorem Configure_endpoint_keeps_trailing_slash:
  "DataSourceData (fst (Configure \<lparr>Config = ([], pve_config)\<rparr> [])) = Some pve
     \<and> HasSuffix (Endpoint pve) ''/''"
  by (simp add: Configure_def Let_def pve_config_def pve_def HasError_def IsNull_def
      ValueString_def HasPrefix_def HasSuffix_def)

text \<open>
  C5. The claim asks that an empty endpoint, token identifier or token secret be refused as
  missing configuration, which is what the diagnostics of \<open>Configure\<close> announce ("a missing
  or empty value"). The code tests \<open>IsNull\<close> only: with the endpoint set to the empty
  string and a well-formed token, there is no diagnostic and \<open>Configure\<close> produces a client
  whose endpoint is empty.
\<close>

theorem Configure_accepts_empty_endpoint:
  "Configure \<lparr>Config = ([], pve_config\<lparr>endpoint := Known []\<rparr>)\<rparr> [] =
     (\<lparr>Diagnostics = [],
       DataSourceData = Some (pve\<lparr>Endpoint := []\<rparr>),
       ResourceData = Some (pve\<lparr>Endpoint := []\<rparr>)\<rparr>, [])"
  by (simp add: Configure_def Let_def pve_config_def pve_def HasError_def IsNull_def
      ValueString_def HasPrefix_def)

text \<open>
  C6. For every token identifier that has no \<open>!\<close> in it, \<open>Configure\<close> fails with the
  diagnostic "Invalid Token ID Format", produces no client, and leaves the log of the
  requests as it was: nothing went to the network. The three attributes are required by the
  schema, so none of them is null when \<open>Configure\<close> runs; an unknown token identifier reads
  as the empty string and is refused as well.
\<close>

theorem Configure_rejects_token_without_separator:
  assumes "\<not> HasError (fst (Config req))"
    and "\<not> IsNull (endpoint (snd (Config req)))"
    and "\<not> IsNull (token_id (snd (Config req)))"
    and "\<not> IsNull (token_secret (snd (Config req)))"
    and "CHR ''!'' \<notin> set (ValueString (token_id (snd (Config req))))"
  shows "\<exists>detail. Configure req sent =
     (\<lparr>Diagnostics = fst (Config req) @
          [\<lparr>Severity = SeverityError, Summary = ''Invalid Token ID Format'', Detail = detail\<rparr>],
       DataSourceData = None, ResourceData = None\<rparr>, sent)"
  using assms by (simp add: Configure_def Contains_single AddError_def)

theorem Configure_rejects_token_without_separator_witness:
  "\<exists>detail. Configure \<lparr>Config = ([], pve_config\<lparr>token_id := Known ''root@pam''\<rparr>)\<rparr> [] =
     (\<lparr>Diagnostics =
          [\<lparr>Severity = SeverityError, Summary = ''Invalid Token ID Format'', Detail = detail\<rparr>],
       DataSourceData = None, ResourceData = None\<rparr>, [])"
  using Configure_rejects_token_without_separator
      [where req = "\<lparr>Config = ([], pve_config\<lparr>token_id := Known ''root@pam''\<rparr>)\<rparr>" and sent = "[]"]
  by (simp add: pve_config_def HasError_def IsNull_def ValueString_def)

text \<open>
  C7. For every response whose status code is not 200, \<open>Read\<close> fails with the diagnostic
  "API Error"; the state is not set, so no record is produced. The detail of the diagnostic
  carries the status code and the body as it was read: it spells the status code in decimal
  and then the body, no other status code and body give the same detail, and the digits
  of a status code that is not negative read back as that status code.
\<close>

theorem Read_non_200:
  assumes "\<not> HasError (fst (Config req))"
    and "client d = Some c"
    and "NewRequest_error w ''GET'' (URL (spec_storage_request c)) = None"
    and "Do w (HTTPClient c) (spec_storage_request c) = Inr httpResp"
    and "StatusCode httpResp \<noteq> 200"
  shows "Read w d req sent =
     (Return \<lparr>Diagnostics = fst (Config req) @
          [\<lparr>Severity = SeverityError, Summary = ''API Error'',
            Detail = ''Unable to read storages, got status '' @ format_d (StatusCode httpResp)
              @ '': '' @ fst (Body httpResp)\<rparr>],
        State = None\<rparr>,
      sent @ [spec_storage_request c])
   \<and> (\<forall>i b. ''Unable to read storages, got status '' @ format_d i @ '': '' @ b =
              ''Unable to read storages, got status '' @ format_d (StatusCode httpResp)
                @ '': '' @ fst (Body httpResp)
            \<longrightarrow> i = StatusCode httpResp \<and> b = fst (Body httpResp))
   \<and> (0 \<le> StatusCode httpResp \<longrightarrow>
        int (decimal_value (format_d (StatusCode httpResp))) = StatusCode httpResp)"
proof (intro conjI allI impI)
  show "Read w d req sent =
     (Return \<lparr>Diagnostics = fst (Config req) @
          [\<lparr>Severity = SeverityError, Summary = ''API Error'',
            Detail = ''Unable to read storages, got status '' @ format_d (StatusCode httpResp)
              @ '': '' @ fst (Body httpResp)\<rparr>],
        State = None\<rparr>,
      sent @ [spec_storage_request c])"
    using Read_response [OF assms(1-4)] assms(5) by (simp add: AddError_def)
next
  fix i b
  assume "''Unable to read storages, got status '' @ format_d i @ '': '' @ b =
      ''Unable to read storages, got status '' @ format_d (StatusCode httpResp)
        @ '': '' @ fst (Body httpResp)"
  then have e: "i = StatusCode httpResp \<and> b = fst (Body httpResp)"
    by (rule API_Error_detail_inj)
  from e show "i = StatusCode httpResp" ..
  from e show "b = fst (Body httpResp)" ..
next
  assume "0 \<le> StatusCode httpResp"
  then show "int (decimal_value (format_d (StatusCode httpResp))) = StatusCode httpResp"
    by (rule format_d_decimal)
qed

theorem Read_non_200_witness:
  "Read (serving 404 ''no such resource'' (Inl ''invalid character'')) \<lparr>client = Some pve\<rparr>
      no_config [] =
     (Return \<lparr>Diagnostics =
          [\<lparr>Severity = SeverityError, Summary = ''API Error'',
            Detail = ''Unable to read storages, got status 404: no such resource''\<rparr>],
        State = None\<rparr>,
      [spec_storage_request pve])
   \<and> format_d 404 = ''404''
   \<and> decimal_value ''404'' = 404"
proof -
  let ?w = "serving 404 ''no such resource'' (Inl ''invalid character'')"
  have f: "format_d 404 = ''404''"
    by code_simp
  have h1: "\<not> HasError (fst (Config no_config))"
    by (simp add: no_config_def HasError_def)
  have h2: "client \<lparr>client = Some pve\<rparr> = Some pve"
    by simp
  have h3: "NewRequest_error ?w ''GET'' (URL (spec_storage_request pve)) = None"
    by (simp add: serving_def)
  have h4: "Do ?w (HTTPClient pve) (spec_storage_request pve) =
      Inr \<lparr>StatusCode = 404, Body = (''no such resource'', None)\<rparr>"
    by (simp add: serving_def)
  have h5: "StatusCode \<lparr>StatusCode = 404, Body = (''no such resource'', None)\<rparr> \<noteq> 200"
    by simp
  note t = Read_non_200 [OF h1 h2 h3 h4 h5, where sent = "[]"]
  from t have r: "Read ?w \<lparr>client = Some pve\<rparr> no_config [] =
     (Return \<lparr>Diagnostics = fst (Config no_config) @
          [\<lparr>Severity = SeverityError, Summary = ''API Error'',
            Detail = ''Unable to read storages, got status ''
              @ format_d (StatusCode \<lparr>StatusCode = 404, Body = (''no such resource'', None)\<rparr>)
              @ '': '' @ fst (Body \<lparr>StatusCode = 404, Body = (''no such resource'', None)\<rparr>)\<rparr>],
        State = None\<rparr>,
      [] @ [spec_storage_request pve])"
    by (rule conjunct1)
  from t have "int (decimal_value (format_d 404)) = 404"
    by simp
  then have v: "decimal_value ''404'' = 404"
    by (simp add: f)
  show ?thesis
    using r v by (simp add: f no_config_def)
qed

text \<open>
  C8, as the code has it. An invocation that has read its configuration and has its client
  hands exactly one request to the HTTP client when \<open>http.NewRequest\<close> accepts the URL: a
  \<open>GET\<close> to the endpoint, one trailing \<open>/\<close> removed, followed by \<open>/api2/json/storage\<close>, with
  the header \<open>Authorization\<close> set to \<open>PVEAPIToken=\<close>, the token identifier, \<open>=\<close> and the token
  secret, and the header \<open>Content-Type\<close> set to \<open>application/json\<close>. The transport sees that
  request and then the requests with which the client follows the redirects of the server,
  so it sees exactly one request when the server does not redirect. When \<open>http.NewRequest\<close>
  rejects the URL, no request is handed to the client and \<open>Read\<close> reports a client error
  with the error of \<open>http.NewRequest\<close>.
\<close>

theorem Read_issues_one_GET:
  assumes "\<not> HasError (fst (Config req))"
    and "client d = Some c"
  shows "(NewRequest_error w ''GET'' (TrimSuffix (Endpoint c) ''/'' @ ''/api2/json/storage'') = None
            \<longrightarrow>
          (\<exists>r. snd (Read w d req sent) = sent @ [r]
             \<and> Method r = ''GET''
             \<and> URL r = TrimSuffix (Endpoint c) ''/'' @ ''/api2/json/storage''
             \<and> Header r ''Authorization'' =
                 Some [''PVEAPIToken='' @ TokenID c @ ''='' @ TokenSecret c]
             \<and> Header r ''Content-Type'' = Some [''application/json'']
             \<and> on_transport w (HTTPClient c) (snd (Read w d req sent)) =
                 on_transport w (HTTPClient c) sent @ r # follow_ups w (HTTPClient c) r
             \<and> (follow_ups w (HTTPClient c) r = [] \<longrightarrow>
                  on_transport w (HTTPClient c) (snd (Read w d req sent)) =
                    on_transport w (HTTPClient c) sent @ [r])))
       \<and> (NewRequest_error w ''GET'' (TrimSuffix (Endpoint c) ''/'' @ ''/api2/json/storage'') = Some err
            \<longrightarrow>
          Read w d req sent =
            (Return \<lparr>Diagnostics = fst (Config req) @
                 [\<lparr>Severity = SeverityError, Summary = ''Client Error'',
                   Detail = ''Unable to read storages, got error: '' @ err\<rparr>],
               State = None\<rparr>,
             sent))"
proof (intro conjI impI)
  assume n: "NewRequest_error w ''GET'' (TrimSuffix (Endpoint c) ''/'' @ ''/api2/json/storage'')
      = None"
  then have s: "snd (Read w d req sent) = sent @ [spec_storage_request c]"
    using Read_sent [OF assms, of w sent] by (simp add: spec_storage_request_def)
  have "snd (Read w d req sent) = sent @ [spec_storage_request c]
      \<and> Method (spec_storage_request c) = ''GET''
      \<and> URL (spec_storage_request c) = TrimSuffix (Endpoint c) ''/'' @ ''/api2/json/storage''
      \<and> Header (spec_storage_request c) ''Authorization'' =
          Some [''PVEAPIToken='' @ TokenID c @ ''='' @ TokenSecret c]
      \<and> Header (spec_storage_request c) ''Content-Type'' = Some [''application/json'']
      \<and> on_transport w (HTTPClient c) (snd (Read w d req sent)) =
          on_transport w (HTTPClient c) sent
            @ spec_storage_request c # follow_ups w (HTTPClient c) (spec_storage_request c)
      \<and> (follow_ups w (HTTPClient c) (spec_storage_request c) = [] \<longrightarrow>
           on_transport w (HTTPClient c) (snd (Read w d req sent)) =
             on_transport w (HTTPClient c) sent @ [spec_storage_request c])"
    unfolding s by (simp add: spec_storage_request_def on_transport_append on_transport_single)
  then show "\<exists>r. snd (Read w d req sent) = sent @ [r]
             \<and> Method r = ''GET''
             \<and> URL r = TrimSuffix (Endpoint c) ''/'' @ ''/api2/json/storage''
             \<and> Header r ''Authorization'' =
                 Some [''PVEAPIToken='' @ TokenID c @ ''='' @ TokenSecret c]
             \<and> Header r ''Content-Type'' = Some [''application/json'']
             \<and> on_transport w (HTTPClient c) (snd (Read w d req sent)) =
                 on_transport w (HTTPClient c) sent @ r # follow_ups w (HTTPClient c) r
             \<and> (follow_ups w (HTTPClient c) r = [] \<longrightarrow>
                  on_transport w (HTTPClient c) (snd (Read w d req sent)) =
                    on_transport w (HTTPClient c) sent @ [r])"
    by (rule exI)
next
  assume "NewRequest_error w ''GET'' (TrimSuffix (Endpoint c) ''/'' @ ''/api2/json/storage'')
      = Some err"
  then have "NewRequest_error w ''GET'' (URL (spec_storage_request c)) = Some err"
    by (simp add: spec_storage_request_def)
  then show "Read w d req sent =
            (Return \<lparr>Diagnostics = fst (Config req) @
                 [\<lparr>Severity = SeverityError, Summary = ''Client Error'',
                   Detail = ''Unable to read storages, got error: '' @ err\<rparr>],
               State = None\<rparr>,
             sent)"
    by (rule Read_rejected [OF assms])
qed

theorem Read_issues_one_GET_witness:
  "snd (Read (serving 200 ''{}'' (Inr (JObject []))) \<lparr>client = Some pve\<rparr> no_config []) =
     [\<lparr>Method = ''GET'', URL = ''https://pve.example.com:8006/api2/json/storage'',
       Header = [''Authorization'' \<mapsto> [''PVEAPIToken=root@pam!terraform=secret''],
                 ''Content-Type'' \<mapsto> [''application/json'']],
       RequestBody = []\<rparr>]
   \<and> on_transport (serving 200 ''{}'' (Inr (JObject []))) (HTTPClient pve)
        (snd (Read (serving 200 ''{}'' (Inr (JObject []))) \<lparr>client = Some pve\<rparr> no_config [])) =
     [\<lparr>Method = ''GET'', URL = ''https://pve.example.com:8006/api2/json/storage'',
       Header = [''Authorization'' \<mapsto> [''PVEAPIToken=root@pam!terraform=secret''],
                 ''Content-Type'' \<mapsto> [''application/json'']],
       RequestBody = []\<rparr>]
   \<and> Read rejecting \<lparr>client = Some (pve\<lparr>Endpoint := ''192.168.1.10:8006/''\<rparr>)\<rparr> no_config [] =
     (Return \<lparr>Diagnostics =
          [\<lparr>Severity = SeverityError, Summary = ''Client Error'',
            Detail = ''Unable to read storages, got error: first path segment in URL cannot contain colon''\<rparr>],
        State = None\<rparr>,
      [])"
proof -
  let ?w = "serving 200 ''{}'' (Inr (JObject []))"
  let ?c = "pve\<lparr>Endpoint := ''192.168.1.10:8006/''\<rparr>"
  have h1: "\<not> HasError (fst (Config no_config))"
    by (simp add: no_config_def HasError_def)
  have h2: "client \<lparr>client = Some pve\<rparr> = Some pve"
    by simp
  have h2': "client \<lparr>client = Some ?c\<rparr> = Some ?c"
    by simp
  have h3: "NewRequest_error ?w ''GET'' (TrimSuffix (Endpoint pve) ''/'' @ ''/api2/json/storage'')
      = None"
    by (simp add: serving_def)
  have h4: "NewRequest_error rejecting ''GET'' (TrimSuffix (Endpoint ?c) ''/'' @ ''/api2/json/storage'')
      = Some ''first path segment in URL cannot contain colon''"
    by (simp add: rejecting_def serving_def TrimSuffix_def HasSuffix_def)
  have s: "snd (Read ?w \<lparr>client = Some pve\<rparr> no_config []) = [spec_storage_request pve]"
    using Read_sent [OF h1 h2, of ?w "[]"] by (simp add: serving_def)
  have t: "on_transport ?w (HTTPClient pve) [spec_storage_request pve] = [spec_storage_request pve]"
    by (simp add: on_transport_def serving_def)
  have e: "spec_storage_request pve =
      \<lparr>Method = ''GET'', URL = ''https://pve.example.com:8006/api2/json/storage'',
       Header = [''Authorization'' \<mapsto> [''PVEAPIToken=root@pam!terraform=secret''],
                 ''Content-Type'' \<mapsto> [''application/json'']],
       RequestBody = []\<rparr>"
    by (simp add: spec_storage_request_def pve_def TrimSuffix_def HasSuffix_def)
  from Read_issues_one_GET [OF h1 h2, where w = ?w and sent = "[]"] h3
  obtain r where "snd (Read ?w \<lparr>client = Some pve\<rparr> no_config []) = [] @ [r]"
    by blast
  moreover from Read_issues_one_GET [OF h1 h2', where w = rejecting and sent = "[]"
      and err = "''first path segment in URL cannot contain colon''"] h4
  have "Read rejecting \<lparr>client = Some ?c\<rparr> no_config [] =
     (Return \<lparr>Diagnostics = fst (Config no_config) @
          [\<lparr>Severity = SeverityError, Summary = ''Client Error'',
            Detail = ''Unable to read storages, got error: ''
              @ ''first path segment in URL cannot contain colon''\<rparr>],
        State = None\<rparr>,
      [])"
    by blast
  ultimately show ?thesis
    using s t e by (simp add: no_config_def)
qed

text \<open>
  C8 as stated fails both ways. With the endpoint \<open>192.168.1.10:8006\<close>, which has no scheme,
  \<open>http.NewRequest\<close> rejects the URL \<open>192.168.1.10:8006/api2/json/storage\<close>, and the
  invocation ends with the diagnostic "Client Error" and without a request. With a server
  that redirects the request to the same path with a trailing \<open>/\<close>, the client follows, and
  the transport sees two requests, the second without the header \<open>Content-Type\<close>.
\<close>

theorem Read_zero_or_two_requests:
  "Read rejecting \<lparr>client = Some (pve\<lparr>Endpoint := ''192.168.1.10:8006''\<rparr>)\<rparr> no_config [] =
     (Return \<lparr>Diagnostics =
          [\<lparr>Severity = SeverityError, Summary = ''Client Error'',
            Detail = ''Unable to read storages, got error: first path segment in URL cannot contain colon''\<rparr>],
        State = None\<rparr>,
      [])
   \<and> on_transport redirecting (HTTPClient pve)
        (snd (Read redirecting \<lparr>client = Some pve\<rparr> no_config [])) =
     [spec_storage_request pve,
      \<lparr>Method = ''GET'', URL = ''https://pve.example.com:8006/api2/json/storage/'',
       Header = [''Authorization'' \<mapsto> [''PVEAPIToken=root@pam!terraform=secret''],
                 ''Referer'' \<mapsto> [''https://pve.example.com:8006/api2/json/storage'']],
       RequestBody = []\<rparr>]"
proof -
  have h1: "\<not> HasError (fst (Config no_config))"
    by (simp add: no_config_def HasError_def)
  have h2: "client \<lparr>client = Some pve\<rparr> = Some pve"
    by simp
  have s: "snd (Read redirecting \<lparr>client = Some pve\<rparr> no_config []) = [spec_storage_request pve]"
    using Read_sent [OF h1 h2, of redirecting "[]"] by (simp add: redirecting_def serving_def)
  have f: "on_transport redirecting (HTTPClient pve) [spec_storage_request pve] =
     [spec_storage_request pve,
      \<lparr>Method = ''GET'', URL = ''https://pve.example.com:8006/api2/json/storage/'',
       Header = [''Authorization'' \<mapsto> [''PVEAPIToken=root@pam!terraform=secret''],
                 ''Referer'' \<mapsto> [''https://pve.example.com:8006/api2/json/storage'']],
       RequestBody = []\<rparr>]"
    by (auto simp: on_transport_def redirecting_def serving_def spec_storage_request_def pve_def
        TrimSuffix_def HasSuffix_def fun_upd_def)
  have r: "Read rejecting \<lparr>client = Some (pve\<lparr>Endpoint := ''192.168.1.10:8006''\<rparr>)\<rparr> no_config [] =
     (Return \<lparr>Diagnostics =
          [\<lparr>Severity = SeverityError, Summary = ''Client Error'',
            Detail = ''Unable to read storages, got error: first path segment in URL cannot contain colon''\<rparr>],
        State = None\<rparr>,
      [])"
    by (simp add: Read_def DoRequest_storage spec_storage_request_def rejecting_def serving_def
      no_config_def pve_def HasError_def AddError_def TrimSuffix_def HasSuffix_def)
  show ?thesis
    using r s f by simp
qed

text \<open>
  C9, as the code has it. When the key \<open>priority\<close> of a raw record holds a number whose
  integer part is an \<open>int64\<close>, the priority of the model is that integer part: the number
  with its fraction cut off, towards zero, not rounded. When the integer part of the number
  is no \<open>int64\<close>, the priority is present all the same: it is the \<open>int64\<close> that the conversion
  of the platform gives, which is not the integer part. When the key is missing or holds
  anything but a number, the priority is null.
\<close>

theorem project_priority:
  "(map_index r ''priority'' = Float64 f \<and> - (2 ^ 63) \<le> integer_part f \<and> integer_part f < 2 ^ 63
      \<longrightarrow> (\<exists>p. Priority (project w r) = Known p \<and> sint p = integer_part f
             \<and> \<bar>of_int (sint p)\<bar> \<le> \<bar>f\<bar> \<and> \<bar>f\<bar> < \<bar>of_int (sint p)\<bar> + 1))
   \<and> (map_index r ''priority'' = Float64 f
         \<and> \<not> (- (2 ^ 63) \<le> integer_part f \<and> integer_part f < 2 ^ 63)
      \<longrightarrow> Priority (project w r) = Known (int64_out_of_range w f)
           \<and> sint (int64_out_of_range w f) \<noteq> integer_part f)
   \<and> ((\<forall>g. map_index r ''priority'' \<noteq> Float64 g) \<longrightarrow> Priority (project w r) = Null)"
proof (intro conjI impI)
  assume h: "map_index r ''priority'' = Float64 f \<and> - (2 ^ 63) \<le> integer_part f
      \<and> integer_part f < 2 ^ 63"
  then have p: "Priority (project w r) = Known (int64 w f)"
    by (simp add: project_def assert_float64_def)
  have s: "sint (int64 w f) = integer_part f"
    using h by (intro sint_int64_in_range) simp_all
  have "\<bar>of_int (integer_part f)\<bar> \<le> \<bar>f\<bar>" and "\<bar>f\<bar> < \<bar>of_int (integer_part f)\<bar> + 1"
    using integer_part_toward_zero [of f] by simp_all
  then have "Priority (project w r) = Known (int64 w f) \<and> sint (int64 w f) = integer_part f
      \<and> \<bar>of_int (sint (int64 w f))\<bar> \<le> \<bar>f\<bar> \<and> \<bar>f\<bar> < \<bar>of_int (sint (int64 w f))\<bar> + 1"
    unfolding s using p by simp
  then show "\<exists>p. Priority (project w r) = Known p \<and> sint p = integer_part f
      \<and> \<bar>of_int (sint p)\<bar> \<le> \<bar>f\<bar> \<and> \<bar>f\<bar> < \<bar>of_int (sint p)\<bar> + 1"
    by (rule exI)
next
  assume h: "map_index r ''priority'' = Float64 f
      \<and> \<not> (- (2 ^ 63) \<le> integer_part f \<and> integer_part f < 2 ^ 63)"
  then show "Priority (project w r) = Known (int64_out_of_range w f)"
    by (auto simp: project_def assert_float64_def int64_def)
next
  assume h: "map_index r ''priority'' = Float64 f
      \<and> \<not> (- (2 ^ 63) \<le> integer_part f \<and> integer_part f < 2 ^ 63)"
  have "- (2 ^ 63) \<le> sint (int64_out_of_range w f)" and "sint (int64_out_of_range w f) < 2 ^ 63"
    using sint_range_size [of "int64_out_of_range w f"] by (simp_all add: word_size)
  with h show "sint (int64_out_of_range w f) \<noteq> integer_part f"
    by auto
next
  assume "\<forall>g. map_index r ''priority'' \<noteq> Float64 g"
  then show "Priority (project w r) = Null"
    by (cases "map_index r ''priority''") (simp_all add: project_def assert_float64_def)
qed

theorem project_priority_witness:
  "map_index [(''storage'', String ''local''), (''priority'', Float64 (- (21 / 2)))] ''priority''
      = Float64 (- (21 / 2))
   \<and> integer_part (- (21 / 2)) = - 10
   \<and> Priority (project (serving 200 ''{}'' (Inr (JObject [])))
        [(''storage'', String ''local''), (''priority'', Float64 (- (21 / 2)))]) = Known (- 10)
   \<and> integer_part (- 100000000000000000000) = - 100000000000000000000
   \<and> Priority (project (serving 200 ''{}'' (Inr (JObject [])))
        [(''priority'', Float64 (- 100000000000000000000))]) = Known 0x8000000000000000
   \<and> sint (0x8000000000000000 :: 64 word) \<noteq> - 100000000000000000000
   \<and> Priority (project (serving 200 ''{}'' (Inr (JObject [])))
        [(''storage'', String ''local''), (''priority'', String ''high'')]) = Null"
proof -
  have "\<lfloor>21 / 2 :: rat\<rfloor> = 10"
    by (rule floor_unique) simp_all
  then have t: "integer_part (- (21 / 2)) = - 10"
    by (simp add: integer_part_def)
  have u: "integer_part (- 100000000000000000000) = - 100000000000000000000"
    by (simp add: integer_part_def)
  show ?thesis
    using
      project_priority [where r = "[(''storage'', String ''local''), (''priority'', Float64 (- (21 / 2)))]"
        and f = "- (21 / 2)" and w = "serving 200 ''{}'' (Inr (JObject []))"]
      project_priority [where r = "[(''priority'', Float64 (- 100000000000000000000))]"
        and f = "- 100000000000000000000" and w = "serving 200 ''{}'' (Inr (JObject []))"]
      project_priority [where r = "[(''storage'', String ''local''), (''priority'', String ''high'')]"
        and w = "serving 200 ''{}'' (Inr (JObject []))"]
    by (simp add: t u map_index_def project_def assert_float64_def int64_def serving_def)
qed

text \<open>
  C9 as stated fails: the number 18446744073709551616, which is \<open>2 ^ 64\<close> and a \<open>float64\<close>,
  is its own integer part, and no \<open>int64\<close> equals it. Where the conversion gives the least
  \<open>int64\<close> for it, the priority of the model is \<open>- 9223372036854775808\<close>.
\<close>

theorem project_priority_out_of_range:
  "Priority (project (serving 200 ''{}'' (Inr (JObject [])))
       [(''priority'', Float64 18446744073709551616)]) = Known 0x8000000000000000
     \<and> sint (0x8000000000000000 :: 64 word) = - 9223372036854775808
     \<and> integer_part 18446744073709551616 = 18446744073709551616"
  by (simp add: project_def map_index_def assert_float64_def int64_def integer_part_def
      serving_def)

text \<open>
  C10. Every invocation of \<open>Read\<close> that returns without an error diagnostic has set the
  state, and the \<open>ID\<close> of the state is the string \<open>storages\<close>, whatever the configuration
  and the response were.
\<close>

theorem Read_success_ID:
  assumes "Read w d req sent = (Return resp, sent')"
    and "\<not> HasError (Diagnostics resp)"
  shows "\<exists>m. State resp = Some m \<and> ID m = Known ''storages''"
proof -
  have e: "HasError (ds @ [\<lparr>Severity = SeverityError, Summary = s, Detail = t\<rparr>])" for ds s t
    by (simp add: HasError_def)
  show ?thesis
    using assms
    by (auto simp: Read_def Let_def AddError_def e StringValue_def
        split: if_splits option.splits sum.splits prod.splits)
qed

theorem Read_success_ID_witness:
  "Read (serving 200 local_dir_body (Inr local_dir_json)) \<lparr>client = Some pve\<rparr> no_config [] =
     (Return \<lparr>Diagnostics = [], State = Some \<lparr>ID = Known ''storages'',
        Storages = map (project (serving 200 local_dir_body (Inr local_dir_json)))
          [raw_of (JObject [(''storage'', JString ''local''), (''type'', JString ''dir''),
             (''priority'', JNumber (Some 10))])]\<rparr>\<rparr>,
      [spec_storage_request pve])
   \<and> \<not> HasError []
   \<and> (\<exists>m. State \<lparr>Diagnostics = [], State = Some \<lparr>ID = Known ''storages'',
        Storages = map (project (serving 200 local_dir_body (Inr local_dir_json)))
          [raw_of (JObject [(''storage'', JString ''local''), (''type'', JString ''dir''),
             (''priority'', JNumber (Some 10))])]\<rparr>\<rparr> = Some m \<and> ID m = Known ''storages'')"
proof -
  let ?w = "serving 200 local_dir_body (Inr local_dir_json)"
  let ?resp = "\<lparr>Diagnostics = [], State = Some \<lparr>ID = Known ''storages'',
        Storages = map (project ?w)
          [raw_of (JObject [(''storage'', JString ''local''), (''type'', JString ''dir''),
             (''priority'', JNumber (Some 10))])]\<rparr>\<rparr>"
  have u: "Unmarshal ?w local_dir_body =
      Inr (map raw_of [JObject [(''storage'', JString ''local''), (''type'', JString ''dir''),
             (''priority'', JNumber (Some 10))]])"
    by (intro Unmarshal_data_array) (simp_all add: serving_def local_dir_json_def)
  have r: "Read ?w \<lparr>client = Some pve\<rparr> no_config [] = (Return ?resp, [spec_storage_request pve])"
    using Read_response [where req = no_config and d = "\<lparr>client = Some pve\<rparr>" and c = pve
        and w = ?w and sent = "[]"
        and httpResp = "\<lparr>StatusCode = 200, Body = (local_dir_body, None)\<rparr>"] u
    by (simp add: serving_def HasError_def no_config_def)
  have h: "\<not> HasError (Diagnostics ?resp)"
    by (simp add: HasError_def)
  show ?thesis
    using r h Read_success_ID [OF r h] by simp
qed

end
